theory Spec2Isabelle
  imports Main
begin

section \<open>Python values, exceptions and dictionaries\<close>

text \<open>
  The module \<^verbatim>\<open>src/agent_core.py\<close> is glue code around two HTTP clients and a remote
  agent service. Payloads and results are JSON-like Python values.
\<close>

datatype pyval =
    PNone
  | PBool bool
  | PInt int
  | PStr string
  | PList "pyval list"
  | PDict "(string \<times> pyval) list"

text \<open>
  An exception object is its class and the text \<^verbatim>\<open>str(e)\<close> gives. Python's hierarchy
  has \<^verbatim>\<open>BaseException\<close> at the root; \<^verbatim>\<open>KeyboardInterrupt\<close>, \<^verbatim>\<open>SystemExit\<close> and
  \<^verbatim>\<open>GeneratorExit\<close> derive from it directly, every other built-in class derives from
  \<^verbatim>\<open>Exception\<close>. A clause \<^verbatim>\<open>except Exception\<close> catches the instances of \<^verbatim>\<open>Exception\<close>
  only.
\<close>

datatype exn_class =
    IndexError
  | ValidationError
  | KeyboardInterrupt
  | SystemExit
  | GeneratorExit
  | ExceptionSubclass string
  | BaseExceptionSubclass string

datatype py_exn = PyExn (exn_class: exn_class) (str: string)

fun isinstance_Exception :: "py_exn \<Rightarrow> bool" where
  "isinstance_Exception (PyExn KeyboardInterrupt _) = False"
| "isinstance_Exception (PyExn SystemExit _) = False"
| "isinstance_Exception (PyExn GeneratorExit _) = False"
| "isinstance_Exception (PyExn (BaseExceptionSubclass _) _) = False"
| "isinstance_Exception (PyExn _ _) = True"

text \<open>
  A Python \<^verbatim>\<open>dict\<close> keeps its keys in insertion order: \<^verbatim>\<open>d[k] = v\<close> replaces the value
  of a key that is present, where it stands, and appends a key that is new.
\<close>

fun dict_setitem :: "('k \<times> 'v) list \<Rightarrow> 'k \<Rightarrow> 'v \<Rightarrow> ('k \<times> 'v) list" where
  "dict_setitem [] k v = [(k, v)]"
| "dict_setitem ((k', v') # d) k v =
     (if k' = k then (k', v) # d else (k', v') # dict_setitem d k v)"

fun dict_get :: "('k \<times> 'v) list \<Rightarrow> 'k \<Rightarrow> 'v option" where
  "dict_get [] k = None"
| "dict_get ((k', v') # d) k = (if k' = k then Some v' else dict_get d k)"


text \<open>
  Truthiness of an optional string: \<^verbatim>\<open>None\<close> and the empty string are both false in
  \<^verbatim>\<open>x or default\<close> and in \<^verbatim>\<open>if not x\<close>.
\<close>

fun truthy :: "string option \<Rightarrow> bool" where
  "truthy None = False"
| "truthy (Some s) = (s \<noteq> [])"

definition or_default :: "string option \<Rightarrow> string \<Rightarrow> string" where
  "or_default x d = (case x of None \<Rightarrow> d | Some s \<Rightarrow> if s = [] then d else s)"

section \<open>Collaborators\<close>

text \<open>
  The two HTTP clients live in \<^verbatim>\<open>src.abstractions\<close>; this module calls one method of
  each, with the keyword arguments as a dictionary, and the call returns a value or
  raises. The configuration classes are read for their URL only.
\<close>

type_synonym kwargs = "(string \<times> pyval) list"

record FunctionConfig =
  function_url :: string
  function_key :: string

record LogicAppConfig =
  workflow_url :: string

datatype AzureFunctionsClient =
  AzureFunctionsClient (invoke_function: "kwargs \<Rightarrow> py_exn + pyval")

datatype LogicAppsClient =
  LogicAppsClient (trigger_workflow: "kwargs \<Rightarrow> py_exn + pyval")

text \<open>A callable stored in the registry: its \<^verbatim>\<open>__name__\<close> and what calling it does.\<close>

datatype Callable =
  Callable (dunder_name: string) (call: "kwargs \<Rightarrow> py_exn + pyval")

text \<open>The descriptor handed to the agent service (\<^verbatim>\<open>FunctionTool\<close>).\<close>

record FunctionTool =
  name :: string
  description :: string
  parameters :: pyval

text \<open>Objects the remote agent service returns, with the fields this module reads.\<close>

record Agent =
  Agent_id :: string

record AgentThread =
  AgentThread_id :: string

record ThreadRun =
  status :: string

datatype MessageContent =
    MessageTextContent (text_value: string)
  | MessageImageFileContent string

record ThreadMessage =
  role :: string
  content :: "MessageContent list"

text \<open>
  The remote calls this module can issue, with their arguments. The list of the calls
  issued so far is the observable effect of the controller.
\<close>

datatype RemoteCall =
    CreateAgentCall string string string "FunctionTool list" "(string \<times> pyval) list"
  | CreateThreadCall
  | CreateMessageCall string string string
  | CreateAndProcessRunCall string string
  | ListMessagesCall string
  | DeleteAgentCall string

text \<open>
  The service itself (\<^verbatim>\<open>self._client.agents\<close>) is any deterministic responder: each
  operation answers from the calls made before it and its own arguments, with a value
  or an exception.
\<close>

record AgentsClient =
  agents_create_agent ::
    "RemoteCall list \<Rightarrow> string \<Rightarrow> string \<Rightarrow> string \<Rightarrow> FunctionTool list \<Rightarrow>
       (string \<times> pyval) list \<Rightarrow> py_exn + Agent"
  agents_create_thread :: "RemoteCall list \<Rightarrow> py_exn + AgentThread"
  agents_create_message :: "RemoteCall list \<Rightarrow> string \<Rightarrow> string \<Rightarrow> string \<Rightarrow> py_exn + unit"
  agents_create_and_process_run :: "RemoteCall list \<Rightarrow> string \<Rightarrow> string \<Rightarrow> py_exn + ThreadRun"
  agents_list_messages :: "RemoteCall list \<Rightarrow> string \<Rightarrow> py_exn + ThreadMessage list"
  agents_delete_agent :: "RemoteCall list \<Rightarrow> string \<Rightarrow> py_exn + unit"

section \<open>AgentConfig\<close>

record AgentConfig =
  project_endpoint :: string
  use_managed_identity :: bool
  model_name :: string
  instructions :: string

text \<open>
  Construction of the pydantic model from keyword arguments, each given or omitted.
  \<^verbatim>\<open>Field(...)\<close> makes \<^verbatim>\<open>project_endpoint\<close> required; the other fields have defaults.
  No field carries a length or pattern constraint.
\<close>

definition AgentConfig_init ::
  "string option \<Rightarrow> bool option \<Rightarrow> string option \<Rightarrow> string option \<Rightarrow> py_exn + AgentConfig" where
  "AgentConfig_init endpoint managed model instr =
     (case endpoint of
        None \<Rightarrow> Inl (PyExn ValidationError ''project_endpoint: Field required'')
      | Some e \<Rightarrow>
          Inr \<lparr> project_endpoint = e,
                use_managed_identity = (case managed of None \<Rightarrow> True | Some b \<Rightarrow> b),
                model_name = (case model of None \<Rightarrow> ''gpt-4'' | Some m \<Rightarrow> m),
                instructions =
                  (case instr of
                     None \<Rightarrow> ''You are a helpful AI assistant with access to Azure tools.''
                   | Some i \<Rightarrow> i) \<rparr>)"

section \<open>FoundryAgent\<close>

record FoundryAgent =
  config :: AgentConfig
  tools :: "(string \<times> Callable) list"
  function_tools :: "FunctionTool list"
  client :: AgentsClient
  calls :: "RemoteCall list"

text \<open>
  \<^verbatim>\<open>__init__\<close>: the project client is built by the Azure SDK from the endpoint; its
  constructor is a parameter here, and may raise.
\<close>

definition FoundryAgent_init ::
  "(string \<Rightarrow> py_exn + AgentsClient) \<Rightarrow> AgentConfig \<Rightarrow> py_exn + FoundryAgent" where
  "FoundryAgent_init AIProjectClient cfg =
     (case AIProjectClient (project_endpoint cfg) of
        Inl e \<Rightarrow> Inl e
      | Inr c \<Rightarrow>
          Inr \<lparr> config = cfg, tools = [], function_tools = [], client = c, calls = [] \<rparr>)"

subsection \<open>Tool registration\<close>

text \<open>The fixed parameter schema of the two built-in tool kinds.\<close>

definition payload_schema :: "string \<Rightarrow> pyval" where
  "payload_schema d =
     PDict [(''type'', PStr ''object''),
            (''properties'',
               PDict [(''payload'',
                  PDict [(''type'', PStr ''object''), (''description'', PStr d)])]),
            (''required'', PList [PStr ''payload''])]"

text \<open>
  The closure \<^verbatim>\<open>tool_function\<close> of \<^verbatim>\<open>register_azure_function_tool\<close>: the client's result
  is returned as it is; an exception that \<^verbatim>\<open>except Exception\<close> catches becomes a
  dictionary; any other exception leaves the closure.
\<close>

definition azure_function_tool_function :: "AzureFunctionsClient \<Rightarrow> kwargs \<Rightarrow> py_exn + pyval" where
  "azure_function_tool_function c kw =
     (case invoke_function c kw of
        Inr result \<Rightarrow> Inr result
      | Inl e \<Rightarrow>
          if isinstance_Exception e
          then Inr (PDict [(''error'', PStr (str e)), (''status'', PStr ''failed'')])
          else Inl e)"

definition register_azure_function_tool ::
  "(FunctionConfig \<Rightarrow> AzureFunctionsClient) \<Rightarrow> string \<Rightarrow> FunctionConfig \<Rightarrow> string option \<Rightarrow>
     FoundryAgent \<Rightarrow> FoundryAgent" where
  "register_azure_function_tool mk_client n cfg descr self =
     (let c = mk_client cfg;
          tool_function = Callable n (azure_function_tool_function c);
          function_tool =
            \<lparr> name = n,
              description =
                or_default descr
                  (''Azure Function tool: '' @ n @ '' - Invokes Azure Function at ''
                     @ function_url cfg),
              parameters = payload_schema ''JSON payload to send to the Azure Function'' \<rparr>
      in self \<lparr> tools := dict_setitem (tools self) n tool_function,
                function_tools := function_tools self @ [function_tool] \<rparr>)"

text \<open>The same for \<^verbatim>\<open>register_logic_app_tool\<close>.\<close>

definition logic_app_tool_function :: "LogicAppsClient \<Rightarrow> kwargs \<Rightarrow> py_exn + pyval" where
  "logic_app_tool_function c kw =
     (case trigger_workflow c kw of
        Inr result \<Rightarrow> Inr result
      | Inl e \<Rightarrow>
          if isinstance_Exception e
          then Inr (PDict [(''error'', PStr (str e)), (''status'', PStr ''failed'')])
          else Inl e)"

definition register_logic_app_tool ::
  "(LogicAppConfig \<Rightarrow> LogicAppsClient) \<Rightarrow> string \<Rightarrow> LogicAppConfig \<Rightarrow> string option \<Rightarrow>
     FoundryAgent \<Rightarrow> FoundryAgent" where
  "register_logic_app_tool mk_client n cfg descr self =
     (let c = mk_client cfg;
          tool_function = Callable n (logic_app_tool_function c);
          function_tool =
            \<lparr> name = n,
              description =
                or_default descr
                  (''Logic App workflow tool: '' @ n @ '' - Triggers workflow at ''
                     @ workflow_url cfg),
              parameters = payload_schema ''JSON payload to send to the Logic App workflow'' \<rparr>
      in self \<lparr> tools := dict_setitem (tools self) n tool_function,
                function_tools := function_tools self @ [function_tool] \<rparr>)"

text \<open>\<^verbatim>\<open>register_custom_tool\<close> stores the caller's function itself.\<close>

definition register_custom_tool ::
  "string \<Rightarrow> Callable \<Rightarrow> string \<Rightarrow> pyval \<Rightarrow> FoundryAgent \<Rightarrow> FoundryAgent" where
  "register_custom_tool n function descr params self =
     (let function_tool = \<lparr> name = n, description = descr, parameters = params \<rparr>
      in self \<lparr> tools := dict_setitem (tools self) n function,
                function_tools := function_tools self @ [function_tool] \<rparr>)"


text \<open>Calling the registered tool of a name, as the holder of the registry would.\<close>

definition invoke_tool :: "FoundryAgent \<Rightarrow> string \<Rightarrow> kwargs \<Rightarrow> (py_exn + pyval) option" where
  "invoke_tool self n kw = map_option (\<lambda>f. call f kw) (dict_get (tools self) n)"

subsection \<open>Remote calls\<close>

text \<open>
  Each call on \<^verbatim>\<open>self._client.agents\<close> is answered by the service from the calls made
  so far, and is recorded whether it returns or raises.
\<close>

definition remote_create_thread :: "FoundryAgent \<Rightarrow> (py_exn + AgentThread) \<times> FoundryAgent" where
  "remote_create_thread self =
     (agents_create_thread (client self) (calls self),
      self \<lparr> calls := calls self @ [CreateThreadCall] \<rparr>)"

definition remote_create_message ::
  "string \<Rightarrow> string \<Rightarrow> string \<Rightarrow> FoundryAgent \<Rightarrow> (py_exn + unit) \<times> FoundryAgent" where
  "remote_create_message tid r c self =
     (agents_create_message (client self) (calls self) tid r c,
      self \<lparr> calls := calls self @ [CreateMessageCall tid r c] \<rparr>)"

definition remote_create_and_process_run ::
  "string \<Rightarrow> string \<Rightarrow> FoundryAgent \<Rightarrow> (py_exn + ThreadRun) \<times> FoundryAgent" where
  "remote_create_and_process_run tid aid self =
     (agents_create_and_process_run (client self) (calls self) tid aid,
      self \<lparr> calls := calls self @ [CreateAndProcessRunCall tid aid] \<rparr>)"

definition remote_list_messages ::
  "string \<Rightarrow> FoundryAgent \<Rightarrow> (py_exn + ThreadMessage list) \<times> FoundryAgent" where
  "remote_list_messages tid self =
     (agents_list_messages (client self) (calls self) tid,
      self \<lparr> calls := calls self @ [ListMessagesCall tid] \<rparr>)"

subsection \<open>create_agent, delete_agent\<close>

definition create_agent :: "string option \<Rightarrow> FoundryAgent \<Rightarrow> (py_exn + string) \<times> FoundryAgent" where
  "create_agent nm self =
     (let agent_name = or_default nm ''Azure Tools Agent'';
          self' = self \<lparr> calls := calls self @
                    [CreateAgentCall (model_name (config self)) agent_name
                       (instructions (config self)) (function_tools self) []] \<rparr>
      in case agents_create_agent (client self) (calls self) (model_name (config self))
                agent_name (instructions (config self)) (function_tools self) [] of
           Inl e \<Rightarrow> (Inl e, self')
         | Inr agent \<Rightarrow> (Inr (Agent_id agent), self'))"

definition delete_agent :: "string \<Rightarrow> FoundryAgent \<Rightarrow> (py_exn + unit) \<times> FoundryAgent" where
  "delete_agent aid self =
     (agents_delete_agent (client self) (calls self) aid,
      self \<lparr> calls := calls self @ [DeleteAgentCall aid] \<rparr>)"

subsection \<open>run_agent\<close>

text \<open>
  Lines 249 to 253, \<^verbatim>\<open>if not thread_id\<close>: a thread is created when the argument is
  \<^verbatim>\<open>None\<close> or empty, and the argument is the thread otherwise.
\<close>

definition run_agent_thread ::
  "string option \<Rightarrow> FoundryAgent \<Rightarrow> (py_exn + string) \<times> FoundryAgent" where
  "run_agent_thread thread_id self =
     (if \<not> truthy thread_id
      then (case remote_create_thread self of
              (Inl e, s) \<Rightarrow> (Inl e, s)
            | (Inr thread, s) \<Rightarrow> (Inr (AgentThread_id thread), s))
      else (Inr (the thread_id), self))"

text \<open>
  Lines 249 to 268: the thread, the user's message, the run, the listing. The first
  call that raises ends the operation with its exception.
\<close>

definition run_agent_listing ::
  "string \<Rightarrow> string \<Rightarrow> string option \<Rightarrow> FoundryAgent \<Rightarrow>
     (py_exn + ThreadMessage list) \<times> FoundryAgent" where
  "run_agent_listing aid user_message thread_id self =
     (case run_agent_thread thread_id self of
        (Inl e, s1) \<Rightarrow> (Inl e, s1)
      | (Inr tid, s1) \<Rightarrow>
          (case remote_create_message tid ''user'' user_message s1 of
             (Inl e, s2) \<Rightarrow> (Inl e, s2)
           | (Inr _, s2) \<Rightarrow>
               (case remote_create_and_process_run tid aid s2 of
                  (Inl e, s3) \<Rightarrow> (Inl e, s3)
                | (Inr run, s3) \<Rightarrow> remote_list_messages tid s3)))"

text \<open>
  Lines 271 to 277, the loop over the listing. \<^verbatim>\<open>message.content[0]\<close> raises
  \<^verbatim>\<open>IndexError\<close> on an empty list; \<^verbatim>\<open>hasattr(content, "text")\<close> holds of a text item
  and not of an image item.
\<close>

fun scan_messages :: "ThreadMessage list \<Rightarrow> py_exn + string" where
  "scan_messages [] = Inr ''No response generated''"
| "scan_messages (message # messages) =
     (if role message = ''assistant''
      then (case content message of
              [] \<Rightarrow> Inl (PyExn IndexError ''list index out of range'')
            | MessageTextContent v # _ \<Rightarrow> Inr v
            | MessageImageFileContent _ # _ \<Rightarrow> scan_messages messages)
      else scan_messages messages)"

definition run_agent ::
  "string \<Rightarrow> string \<Rightarrow> string option \<Rightarrow> FoundryAgent \<Rightarrow> (py_exn + string) \<times> FoundryAgent" where
  "run_agent aid user_message thread_id self =
     (case run_agent_listing aid user_message thread_id self of
        (Inl e, s) \<Rightarrow> (Inl e, s)
      | (Inr messages, s) \<Rightarrow> (scan_messages messages, s))"

section \<open>The behaviour the specification describes\<close>








text \<open>The three calls \<^verbatim>\<open>run_agent\<close> makes on a thread, in their order.\<close>

definition thread_calls :: "string \<Rightarrow> string \<Rightarrow> string \<Rightarrow> RemoteCall list" where
  "thread_calls tid aid user_message =
     [CreateMessageCall tid ''user'' user_message,
      CreateAndProcessRunCall tid aid,
      ListMessagesCall tid]"




section \<open>Stub collaborators for the examples\<close>

definition example_config :: AgentConfig where
  "example_config =
     \<lparr> project_endpoint = ''https://my-project.api.azureml.ms'',
       use_managed_identity = True,
       model_name = ''gpt-4'',
       instructions = ''You are a helpful AI assistant with access to Azure tools.'' \<rparr>"

text \<open>
  A service that answers every call, lists the given messages, and raises the given
  exception at the call made after \<open>k\<close> earlier ones (never, for \<open>None\<close>).
\<close>

definition answer :: "(nat \<times> py_exn) option \<Rightarrow> RemoteCall list \<Rightarrow> 'a \<Rightarrow> py_exn + 'a" where
  "answer fault h v =
     (case fault of
        None \<Rightarrow> Inr v
      | Some (k, e) \<Rightarrow> if length h = k then Inl e else Inr v)"

definition stub_agents :: "(nat \<times> py_exn) option \<Rightarrow> ThreadMessage list \<Rightarrow> AgentsClient" where
  "stub_agents fault msgs =
     \<lparr> agents_create_agent = (\<lambda>h m n i t r. answer fault h \<lparr> Agent_id = ''agent1'' \<rparr>),
       agents_create_thread = (\<lambda>h. answer fault h \<lparr> AgentThread_id = ''t1'' \<rparr>),
       agents_create_message = (\<lambda>h t r c. answer fault h ()),
       agents_create_and_process_run = (\<lambda>h t a. answer fault h \<lparr> status = ''completed'' \<rparr>),
       agents_list_messages = (\<lambda>h t. answer fault h msgs),
       agents_delete_agent = (\<lambda>h a. answer fault h ()) \<rparr>"

definition stub_agent :: "(nat \<times> py_exn) option \<Rightarrow> ThreadMessage list \<Rightarrow> FoundryAgent" where
  "stub_agent fault msgs =
     \<lparr> config = example_config, tools = [], function_tools = [],
       client = stub_agents fault msgs, calls = [] \<rparr>"

definition example_function_config :: FunctionConfig where
  "example_function_config =
     \<lparr> function_url = ''https://x/api/process'', function_key = ''key123'' \<rparr>"

definition example_logic_app_config :: LogicAppConfig where
  "example_logic_app_config = \<lparr> workflow_url = ''https://x/workflows/notify'' \<rparr>"

text \<open>Clients that echo the payload, and clients that raise a given exception.\<close>

definition echo_functions_client :: "FunctionConfig \<Rightarrow> AzureFunctionsClient" where
  "echo_functions_client cfg = AzureFunctionsClient (\<lambda>kw. Inr (PDict kw))"

definition raising_functions_client :: "py_exn \<Rightarrow> FunctionConfig \<Rightarrow> AzureFunctionsClient" where
  "raising_functions_client e cfg = AzureFunctionsClient (\<lambda>kw. Inl e)"

definition echo_logic_apps_client :: "LogicAppConfig \<Rightarrow> LogicAppsClient" where
  "echo_logic_apps_client cfg = LogicAppsClient (\<lambda>kw. Inr (PDict kw))"

definition raising_logic_apps_client :: "py_exn \<Rightarrow> LogicAppConfig \<Rightarrow> LogicAppsClient" where
  "raising_logic_apps_client e cfg = LogicAppsClient (\<lambda>kw. Inl e)"

definition raising_callable :: "py_exn \<Rightarrow> Callable" where
  "raising_callable e = Callable ''custom'' (\<lambda>kw. Inl e)"

definition service_error :: py_exn where
  "service_error = PyExn (ExceptionSubclass ''HttpResponseError'') ''503 Service Unavailable''"

text \<open>A project client constructor that accepts every endpoint.\<close>

definition stub_project_client :: "string \<Rightarrow> py_exn + AgentsClient" where
  "stub_project_client endpoint = Inr (stub_agents None [])"

section \<open>Tool wrappers\<close>

lemma dict_get_setitem_same: "dict_get (dict_setitem d k v) k = Some v"
  by (induction d) auto

lemma invoke_registered_azure:
  "invoke_tool (register_azure_function_tool mk n cfg d self) n kw =
     Some (azure_function_tool_function (mk cfg) kw)"
  by (simp add: invoke_tool_def register_azure_function_tool_def dict_get_setitem_same)

lemma invoke_registered_logic_app:
  "invoke_tool (register_logic_app_tool mk n cfg d self) n kw =
     Some (logic_app_tool_function (mk cfg) kw)"
  by (simp add: invoke_tool_def register_logic_app_tool_def dict_get_setitem_same)

text \<open>
  C1, as amended. For a registered function tool and for a registered workflow tool:
  when the client's call raises an exception that is an instance of \<^verbatim>\<open>Exception\<close>, the
  wrapper stored under the tool's name returns the dictionary with exactly the keys
  \<^verbatim>\<open>error\<close>, holding \<^verbatim>\<open>str(e)\<close>, and \<^verbatim>\<open>status\<close>, holding "failed"; it does not raise.
  An exception that is not an instance of \<^verbatim>\<open>Exception\<close> leaves the wrapper as it is.
\<close>

theorem wrapper_catches_Exception:
  "(invoke_function (mk_f fcfg) kw = Inl e \<and> isinstance_Exception e \<longrightarrow>
      invoke_tool (register_azure_function_tool mk_f n fcfg d self) n kw =
        Some (Inr (PDict [(''error'', PStr (str e)), (''status'', PStr ''failed'')]))) \<and>
   (trigger_workflow (mk_l lcfg) kw = Inl e \<and> isinstance_Exception e \<longrightarrow>
      invoke_tool (register_logic_app_tool mk_l n lcfg d self) n kw =
        Some (Inr (PDict [(''error'', PStr (str e)), (''status'', PStr ''failed'')]))) \<and>
   (invoke_function (mk_f fcfg) kw = Inl e \<and> \<not> isinstance_Exception e \<longrightarrow>
      invoke_tool (register_azure_function_tool mk_f n fcfg d self) n kw = Some (Inl e)) \<and>
   (trigger_workflow (mk_l lcfg) kw = Inl e \<and> \<not> isinstance_Exception e \<longrightarrow>
      invoke_tool (register_logic_app_tool mk_l n lcfg d self) n kw = Some (Inl e))"
  by (simp add: invoke_registered_azure invoke_registered_logic_app
      azure_function_tool_function_def logic_app_tool_function_def)

theorem wrapper_catches_Exception_witness:
  "invoke_tool
     (register_azure_function_tool
        (raising_functions_client (PyExn (ExceptionSubclass ''HTTPError'') ''500 Server Error''))
        ''process'' example_function_config None (stub_agent None []))
     ''process'' [(''payload'', PInt 1)] =
     Some (Inr (PDict [(''error'', PStr ''500 Server Error''), (''status'', PStr ''failed'')])) \<and>
   invoke_tool
     (register_logic_app_tool
        (raising_logic_apps_client (PyExn (ExceptionSubclass ''HTTPError'') ''500 Server Error''))
        ''process'' example_logic_app_config None (stub_agent None []))
     ''process'' [(''payload'', PInt 1)] =
     Some (Inr (PDict [(''error'', PStr ''500 Server Error''), (''status'', PStr ''failed'')])) \<and>
   invoke_tool
     (register_logic_app_tool (raising_logic_apps_client (PyExn SystemExit ''1''))
        ''process'' example_logic_app_config None (stub_agent None []))
     ''process'' [] = Some (Inl (PyExn SystemExit ''1''))"
  using wrapper_catches_Exception
    [where mk_f = "raising_functions_client (PyExn (ExceptionSubclass ''HTTPError'') ''500 Server Error'')"
       and fcfg = example_function_config
       and mk_l = "raising_logic_apps_client (PyExn (ExceptionSubclass ''HTTPError'') ''500 Server Error'')"
       and lcfg = example_logic_app_config
       and kw = "[(''payload'', PInt 1)]"
       and e = "PyExn (ExceptionSubclass ''HTTPError'') ''500 Server Error''"
       and n = "''process''" and d = None and self = "stub_agent None []"]
    wrapper_catches_Exception
    [where mk_l = "raising_logic_apps_client (PyExn SystemExit ''1'')"
       and lcfg = example_logic_app_config and kw = "[]" and e = "PyExn SystemExit ''1''"
       and n = "''process''" and d = None and self = "stub_agent None []"]
  by (simp add: raising_functions_client_def raising_logic_apps_client_def)

text \<open>
  The claim as it was written speaks of any exception. A client call interrupted by
  \<^verbatim>\<open>KeyboardInterrupt\<close> is not caught by \<^verbatim>\<open>except Exception\<close>: the wrapper raises.
\<close>

theorem wrapper_never_raises_counterexample:
  "invoke_function (raising_functions_client (PyExn KeyboardInterrupt []) example_function_config)
     [(''payload'', PInt 1)] = Inl (PyExn KeyboardInterrupt []) \<and>
   invoke_tool
     (register_azure_function_tool (raising_functions_client (PyExn KeyboardInterrupt []))
        ''process'' example_function_config None (stub_agent None []))
     ''process'' [(''payload'', PInt 1)] = Some (Inl (PyExn KeyboardInterrupt []))"
  by (simp add: invoke_registered_azure azure_function_tool_function_def
      raising_functions_client_def)

text \<open>
  C4. For a registered function tool and for a registered workflow tool: when the
  client's call returns a value V, the wrapper stored under the tool's name returns
  exactly V.
\<close>

theorem wrapper_returns_client_value:
  "(invoke_function (mk_f fcfg) kw = Inr V \<longrightarrow>
      invoke_tool (register_azure_function_tool mk_f n fcfg d self) n kw = Some (Inr V)) \<and>
   (trigger_workflow (mk_l lcfg) kw = Inr V \<longrightarrow>
      invoke_tool (register_logic_app_tool mk_l n lcfg d self) n kw = Some (Inr V))"
  by (simp add: invoke_registered_azure invoke_registered_logic_app
      azure_function_tool_function_def logic_app_tool_function_def)

theorem wrapper_returns_client_value_witness:
  "invoke_tool
     (register_azure_function_tool echo_functions_client ''process'' example_function_config
        None (stub_agent None []))
     ''process'' [(''payload'', PInt 1)] = Some (Inr (PDict [(''payload'', PInt 1)])) \<and>
   invoke_tool
     (register_logic_app_tool echo_logic_apps_client ''process'' example_logic_app_config
        None (stub_agent None []))
     ''process'' [(''payload'', PInt 1)] = Some (Inr (PDict [(''payload'', PInt 1)]))"
  using wrapper_returns_client_value
    [where mk_f = echo_functions_client and fcfg = example_function_config
       and mk_l = echo_logic_apps_client and lcfg = example_logic_app_config
       and kw = "[(''payload'', PInt 1)]" and V = "PDict [(''payload'', PInt 1)]"
       and n = "''process''" and d = None and self = "stub_agent None []"]
  by (simp add: echo_functions_client_def echo_logic_apps_client_def)

section \<open>Configuration\<close>

text \<open>
  C5, as amended. Constructing an AgentConfig is rejected exactly when the endpoint
  URL is omitted; a given endpoint URL, empty or not, is accepted and stored as it is,
  and the session controller's constructor keeps the configuration it is given without
  looking at the endpoint (it hands it to the project client).
\<close>

theorem config_requires_endpoint:
  "isl (AgentConfig_init endpoint managed model instr) = (endpoint = None) \<and>
   (AgentConfig_init (Some e) managed model instr = Inr cfg \<longrightarrow> project_endpoint cfg = e) \<and>
   (AIProjectClient (project_endpoint cfg') = Inr c \<longrightarrow>
      FoundryAgent_init AIProjectClient cfg' =
        Inr \<lparr> config = cfg', tools = [], function_tools = [], client = c, calls = [] \<rparr>)"
  by (auto simp: AgentConfig_init_def FoundryAgent_init_def split: option.splits)

theorem config_requires_endpoint_witness:
  "AgentConfig_init (Some ''https://my-project.api.azureml.ms'') None None None =
     Inr example_config \<and>
   project_endpoint example_config = ''https://my-project.api.azureml.ms'' \<and>
   FoundryAgent_init stub_project_client example_config = Inr (stub_agent None [])"
proof -
  have a: "AgentConfig_init (Some ''https://my-project.api.azureml.ms'') None None None =
      Inr example_config"
    by (simp add: AgentConfig_init_def example_config_def)
  have b: "stub_project_client (project_endpoint example_config) = Inr (stub_agents None [])"
    by (simp add: stub_project_client_def)
  show ?thesis
    using a b config_requires_endpoint
      [where e = "''https://my-project.api.azureml.ms''" and managed = None and model = None
         and instr = None and cfg = example_config and AIProjectClient = stub_project_client
         and cfg' = example_config and c = "stub_agents None []"]
    by (simp add: stub_agent_def)
qed

text \<open>
  The claim as it was written has an empty endpoint URL rejected. It is accepted, by
  the configuration and by the controller.
\<close>

theorem empty_endpoint_counterexample:
  "AgentConfig_init (Some []) None None None =
     Inr \<lparr> project_endpoint = [], use_managed_identity = True, model_name = ''gpt-4'',
           instructions = ''You are a helpful AI assistant with access to Azure tools.'' \<rparr> \<and>
   isl (FoundryAgent_init stub_project_client
     \<lparr> project_endpoint = [], use_managed_identity = True, model_name = ''gpt-4'',
       instructions = ''You are a helpful AI assistant with access to Azure tools.'' \<rparr>) = False"
  by (simp add: AgentConfig_init_def FoundryAgent_init_def stub_project_client_def)

section \<open>The registry\<close>











text \<open>
  C6. With no description given, registering a function tool appends the descriptor
  whose description is "Azure Function tool: <name> - Invokes Azure Function at <url>",
  and registering a workflow tool the one whose description is
  "Logic App workflow tool: <name> - Triggers workflow at <url>"; for the name "process"
  and the URL "https://x/api/process" the description is
  "Azure Function tool: process - Invokes Azure Function at https://x/api/process".
\<close>

theorem default_description:
  "function_tools (register_azure_function_tool mk_f n fcfg None self) =
     function_tools self @
       [\<lparr> name = n,
          description =
            ''Azure Function tool: '' @ n @ '' - Invokes Azure Function at '' @ function_url fcfg,
          parameters = payload_schema ''JSON payload to send to the Azure Function'' \<rparr>] \<and>
   function_tools (register_logic_app_tool mk_l n lcfg None self) =
     function_tools self @
       [\<lparr> name = n,
          description =
            ''Logic App workflow tool: '' @ n @ '' - Triggers workflow at '' @ workflow_url lcfg,
          parameters = payload_schema ''JSON payload to send to the Logic App workflow'' \<rparr>] \<and>
   description (last (function_tools
     (register_azure_function_tool mk_f ''process''
        \<lparr> function_url = ''https://x/api/process'', function_key = key \<rparr> None self))) =
     ''Azure Function tool: process - Invokes Azure Function at https://x/api/process''"
  by (simp add: register_azure_function_tool_def register_logic_app_tool_def or_default_def)

section \<open>The session controller\<close>

lemmas remote_defs =
  remote_create_thread_def remote_create_message_def remote_create_and_process_run_def
  remote_list_messages_def

lemma stub_fault_simps:
  "client (stub_agent fault msgs) = stub_agents fault msgs"
  "calls (stub_agent fault msgs) = []"
  "agents_create_agent (stub_agents fault msgs) h mo nm ins ts rs =
     answer fault h \<lparr> Agent_id = ''agent1'' \<rparr>"
  "agents_create_thread (stub_agents fault msgs) h = answer fault h \<lparr> AgentThread_id = ''t1'' \<rparr>"
  "agents_create_message (stub_agents fault msgs) h t r c = answer fault h ()"
  "agents_create_and_process_run (stub_agents fault msgs) h t a =
     answer fault h \<lparr> status = ''completed'' \<rparr>"
  "agents_list_messages (stub_agents fault msgs) h t = answer fault h msgs"
  "agents_delete_agent (stub_agents fault msgs) h a = answer fault h ()"
  by (simp_all add: stub_agent_def stub_agents_def)

lemma stub_listing:
  "run_agent_listing aid msg (Some (c # cs)) (stub_agent None msgs) =
     (Inr msgs, (stub_agent None msgs) \<lparr> calls := thread_calls (c # cs) aid msg \<rparr>)"
  by (simp add: run_agent_listing_def run_agent_thread_def remote_defs thread_calls_def
      stub_agent_def stub_agents_def answer_def)

lemma stub_listing_new:
  "\<not> truthy thread_id \<Longrightarrow>
   run_agent_listing aid msg thread_id (stub_agent None msgs) =
     (Inr msgs, (stub_agent None msgs) \<lparr> calls := CreateThreadCall # thread_calls ''t1'' aid msg \<rparr>)"
  by (simp add: run_agent_listing_def run_agent_thread_def remote_defs thread_calls_def
      stub_agent_def stub_agents_def answer_def)

subsection \<open>create_agent\<close>

text \<open>
  C8, as amended. \<^verbatim>\<open>create_agent\<close> adds one call to the calls made so far: the
  create-agent call with the configured model, the name, the configured instructions,
  the list of the registered descriptors and an empty tool-resources mapping. The name
  is the literal "Azure Tools Agent" when the name is omitted or is the empty string,
  and the given name when it is not empty. When the service answers that call with an
  agent, the agent's identifier is returned.
\<close>

theorem create_agent_call:
  "calls (snd (create_agent None self)) =
     calls self @ [CreateAgentCall (model_name (config self)) ''Azure Tools Agent''
                     (instructions (config self)) (function_tools self) []] \<and>
   calls (snd (create_agent (Some []) self)) =
     calls self @ [CreateAgentCall (model_name (config self)) ''Azure Tools Agent''
                     (instructions (config self)) (function_tools self) []] \<and>
   (nm \<noteq> [] \<longrightarrow>
      calls (snd (create_agent (Some nm) self)) =
        calls self @ [CreateAgentCall (model_name (config self)) nm
                        (instructions (config self)) (function_tools self) []]) \<and>
   (last (calls (snd (create_agent given self))) = CreateAgentCall mo na ins ts rs \<and>
    agents_create_agent (client self) (calls self) mo na ins ts rs = Inr agent \<longrightarrow>
      fst (create_agent given self) = Inr (Agent_id agent))"
  by (auto simp: create_agent_def or_default_def Let_def split: sum.splits option.splits)

theorem create_agent_call_witness:
  "calls (snd (create_agent (Some ''helper'') (stub_agent None []))) =
     [CreateAgentCall ''gpt-4'' ''helper''
        ''You are a helpful AI assistant with access to Azure tools.'' [] []] \<and>
   fst (create_agent (Some ''helper'') (stub_agent None [])) = Inr ''agent1''"
proof -
  have a: "''helper'' \<noteq> []" by simp
  have b: "agents_create_agent (client (stub_agent None [])) (calls (stub_agent None []))
      ''gpt-4'' ''helper'' ''You are a helpful AI assistant with access to Azure tools.'' [] [] =
      Inr \<lparr> Agent_id = ''agent1'' \<rparr>"
    by (simp add: stub_fault_simps answer_def)
  have c: "config (stub_agent None []) = example_config"
    "function_tools (stub_agent None []) = []" "calls (stub_agent None []) = []"
    by (simp_all add: stub_agent_def)
  show ?thesis
    using a b create_agent_call
      [where self = "stub_agent None []" and nm = "''helper''" and given = "Some ''helper''"
         and mo = "''gpt-4''" and na = "''helper''"
         and ins = "''You are a helpful AI assistant with access to Azure tools.''"
         and ts = "[]" and rs = "[]" and agent = "\<lparr> Agent_id = ''agent1'' \<rparr>"]
    by (simp add: c example_config_def)
qed

text \<open>
  The claim as it was written has the literal used when the name is omitted. The empty
  name is given here, and the call carries the literal, not the name given.
\<close>

theorem empty_name_counterexample:
  "calls (snd (create_agent (Some []) (stub_agent None []))) =
     [CreateAgentCall ''gpt-4'' ''Azure Tools Agent''
        ''You are a helpful AI assistant with access to Azure tools.'' [] []] \<and>
   fst (create_agent (Some []) (stub_agent None [])) = Inr ''agent1''"
  by (simp add: create_agent_def or_default_def Let_def stub_agent_def stub_agents_def
      answer_def example_config_def)

subsection \<open>The thread of a run\<close>


lemma run_agent_calls:
  "calls (snd (run_agent aid msg thread_id self)) =
     calls (snd (run_agent_listing aid msg thread_id self))"
  by (cases "run_agent_listing aid msg thread_id self")
    (auto simp: run_agent_def split: sum.splits)

lemma listing_calls_new_thread:
  assumes "\<not> truthy thread_id"
    and "agents_create_thread (client self) (calls self) = Inr thread"
  shows "(calls (snd (run_agent_listing aid msg thread_id self)) =
        calls self @ CreateThreadCall # take 1 (thread_calls (AgentThread_id thread) aid msg) \<or>
      calls (snd (run_agent_listing aid msg thread_id self)) =
        calls self @ CreateThreadCall # take 2 (thread_calls (AgentThread_id thread) aid msg) \<or>
      calls (snd (run_agent_listing aid msg thread_id self)) =
        calls self @ CreateThreadCall # thread_calls (AgentThread_id thread) aid msg) \<and>
     (\<not> isl (fst (run_agent_listing aid msg thread_id self)) \<longrightarrow>
      calls (snd (run_agent_listing aid msg thread_id self)) =
        calls self @ CreateThreadCall # thread_calls (AgentThread_id thread) aid msg)"
  using assms
  by (auto simp: run_agent_listing_def run_agent_thread_def remote_defs thread_calls_def
      split: sum.splits)

lemma listing_calls_given_thread:
  assumes "t \<noteq> []"
  shows "(calls (snd (run_agent_listing aid msg (Some t) self)) =
        calls self @ take 1 (thread_calls t aid msg) \<or>
      calls (snd (run_agent_listing aid msg (Some t) self)) =
        calls self @ take 2 (thread_calls t aid msg) \<or>
      calls (snd (run_agent_listing aid msg (Some t) self)) =
        calls self @ thread_calls t aid msg) \<and>
     (\<not> isl (fst (run_agent_listing aid msg (Some t) self)) \<longrightarrow>
      calls (snd (run_agent_listing aid msg (Some t) self)) =
        calls self @ thread_calls t aid msg)"
  using assms
  by (auto simp: run_agent_listing_def run_agent_thread_def remote_defs thread_calls_def
      split: sum.splits)

text \<open>
  C7, as amended. When \<^verbatim>\<open>run_agent\<close> is called with no thread identifier, or with an
  empty one, and the service answers the create-thread call with a thread, the calls
  added are that one create-thread call followed by the calls on the new thread's
  identifier: the user's message with role "user", then the run, then the listing, as
  far as the calls return, and all three when they all return. Called with a non-empty
  thread identifier, the calls added are those on the given identifier, and no thread
  is created.
\<close>

theorem run_agent_thread_choice:
  "(\<not> truthy thread_id \<and> agents_create_thread (client self) (calls self) = Inr thread \<longrightarrow>
      (calls (snd (run_agent aid msg thread_id self)) =
         calls self @ CreateThreadCall # take 1 (thread_calls (AgentThread_id thread) aid msg) \<or>
       calls (snd (run_agent aid msg thread_id self)) =
         calls self @ CreateThreadCall # take 2 (thread_calls (AgentThread_id thread) aid msg) \<or>
       calls (snd (run_agent aid msg thread_id self)) =
         calls self @ CreateThreadCall # thread_calls (AgentThread_id thread) aid msg) \<and>
      (\<not> isl (fst (run_agent_listing aid msg thread_id self)) \<longrightarrow>
       calls (snd (run_agent aid msg thread_id self)) =
         calls self @ CreateThreadCall # thread_calls (AgentThread_id thread) aid msg)) \<and>
   (t \<noteq> [] \<longrightarrow>
      (calls (snd (run_agent aid msg (Some t) self)) = calls self @ take 1 (thread_calls t aid msg) \<or>
       calls (snd (run_agent aid msg (Some t) self)) = calls self @ take 2 (thread_calls t aid msg) \<or>
       calls (snd (run_agent aid msg (Some t) self)) = calls self @ thread_calls t aid msg) \<and>
      (\<not> isl (fst (run_agent_listing aid msg (Some t) self)) \<longrightarrow>
       calls (snd (run_agent aid msg (Some t) self)) = calls self @ thread_calls t aid msg))"
  using listing_calls_new_thread [of thread_id self thread aid msg]
    listing_calls_given_thread [of t aid msg self]
  by (simp only: run_agent_calls) blast

theorem run_agent_thread_choice_witness:
  "calls (snd (run_agent ''agent1'' ''hi'' None (stub_agent None []))) =
     [CreateThreadCall, CreateMessageCall ''t1'' ''user'' ''hi'',
      CreateAndProcessRunCall ''t1'' ''agent1'', ListMessagesCall ''t1''] \<and>
   calls (snd (run_agent ''agent1'' ''hi'' (Some ''t7'') (stub_agent None []))) =
     [CreateMessageCall ''t7'' ''user'' ''hi'',
      CreateAndProcessRunCall ''t7'' ''agent1'', ListMessagesCall ''t7'']"
proof -
  have a: "\<not> truthy None" by simp
  have b: "agents_create_thread (client (stub_agent None [])) (calls (stub_agent None [])) =
      Inr \<lparr> AgentThread_id = ''t1'' \<rparr>"
    by (simp add: stub_fault_simps answer_def)
  have c: "\<not> isl (fst (run_agent_listing ''agent1'' ''hi'' None (stub_agent None [])))"
    by (simp add: stub_listing_new)
  have d: "\<not> isl (fst (run_agent_listing ''agent1'' ''hi'' (Some ''t7'') (stub_agent None [])))"
    by (simp add: stub_listing)
  have e: "''t7'' \<noteq> []" by simp
  have f: "calls (stub_agent None []) = []" by (simp add: stub_agent_def)
  show ?thesis
    using a b c d e f run_agent_thread_choice
      [where thread_id = None and self = "stub_agent None []"
         and thread = "\<lparr> AgentThread_id = ''t1'' \<rparr>" and aid = "''agent1''" and msg = "''hi''"
         and t = "''t7''"]
    by (simp add: thread_calls_def)
qed

text \<open>
  The claim as it was written has every thread identifier the caller supplies reused.
  The empty string is supplied here and a thread is created.
\<close>

theorem empty_thread_id_counterexample:
  "calls (snd (run_agent ''agent1'' ''hi'' (Some []) (stub_agent None []))) =
     [CreateThreadCall, CreateMessageCall ''t1'' ''user'' ''hi'',
      CreateAndProcessRunCall ''t1'' ''agent1'', ListMessagesCall ''t1'']"
  by (simp add: run_agent_calls stub_listing_new thread_calls_def)

subsection \<open>The scan of the listing\<close>









subsection \<open>Failures of the remote service\<close>

text \<open>
  C9. An exception with which the service answers the call of \<^verbatim>\<open>create_agent\<close>, the
  call of \<^verbatim>\<open>delete_agent\<close>, or any of the calls of \<^verbatim>\<open>run_agent\<close> (creating the thread,
  posting the message, the run, the listing) is the outcome of the operation,
  unchanged, and the failed call is the last one made: nothing is tried again and
  nothing is turned into a dictionary. A tool registered with \<^verbatim>\<open>register_custom_tool\<close>
  is the caller's function itself, so calling it gives what the function gives,
  exceptions included.
\<close>

theorem controller_propagates:
  "(last (calls (snd (create_agent nm self))) = CreateAgentCall mo na ins ts rs \<and>
    agents_create_agent (client self) (calls self) mo na ins ts rs = Inl e \<longrightarrow>
      fst (create_agent nm self) = Inl e \<and>
      length (calls (snd (create_agent nm self))) = Suc (length (calls self))) \<and>
   (agents_delete_agent (client self) (calls self) aid = Inl e \<longrightarrow>
      delete_agent aid self = (Inl e, self \<lparr> calls := calls self @ [DeleteAgentCall aid] \<rparr>)) \<and>
   (\<not> truthy thread_id \<and> agents_create_thread (client self) (calls self) = Inl e \<longrightarrow>
      run_agent aid msg thread_id self =
        (Inl e, self \<lparr> calls := calls self @ [CreateThreadCall] \<rparr>)) \<and>
   (run_agent_thread thread_id self = (Inr tid, s1) \<and>
    agents_create_message (client s1) (calls s1) tid ''user'' msg = Inl e \<longrightarrow>
      run_agent aid msg thread_id self =
        (Inl e, s1 \<lparr> calls := calls s1 @ [CreateMessageCall tid ''user'' msg] \<rparr>)) \<and>
   (run_agent_thread thread_id self = (Inr tid, s1) \<and>
    remote_create_message tid ''user'' msg s1 = (Inr u, s2) \<and>
    agents_create_and_process_run (client s2) (calls s2) tid aid = Inl e \<longrightarrow>
      run_agent aid msg thread_id self =
        (Inl e, s2 \<lparr> calls := calls s2 @ [CreateAndProcessRunCall tid aid] \<rparr>)) \<and>
   (run_agent_thread thread_id self = (Inr tid, s1) \<and>
    remote_create_message tid ''user'' msg s1 = (Inr u, s2) \<and>
    remote_create_and_process_run tid aid s2 = (Inr run, s3) \<and>
    agents_list_messages (client s3) (calls s3) tid = Inl e \<longrightarrow>
      run_agent aid msg thread_id self =
        (Inl e, s3 \<lparr> calls := calls s3 @ [ListMessagesCall tid] \<rparr>)) \<and>
   invoke_tool (register_custom_tool n f d ps self) n kw = Some (call f kw)"
  by (auto simp: create_agent_def delete_agent_def run_agent_def run_agent_listing_def
      run_agent_thread_def remote_defs Let_def invoke_tool_def register_custom_tool_def
      dict_get_setitem_same split: sum.splits)

theorem controller_propagates_witness:
  "fst (create_agent None (stub_agent (Some (0, service_error)) [])) = Inl service_error \<and>
   fst (delete_agent ''agent1'' (stub_agent (Some (0, service_error)) [])) = Inl service_error \<and>
   fst (run_agent ''agent1'' ''hi'' None (stub_agent (Some (0, service_error)) [])) =
     Inl service_error \<and>
   fst (run_agent ''agent1'' ''hi'' None (stub_agent (Some (1, service_error)) [])) =
     Inl service_error \<and>
   fst (run_agent ''agent1'' ''hi'' None (stub_agent (Some (2, service_error)) [])) =
     Inl service_error \<and>
   fst (run_agent ''agent1'' ''hi'' None (stub_agent (Some (3, service_error)) [])) =
     Inl service_error \<and>
   invoke_tool
     (register_custom_tool ''custom'' (raising_callable service_error) ''fails'' PNone
        (stub_agent None [])) ''custom'' [] = Some (Inl service_error)"
proof -
  have c: "last (calls (snd (create_agent None (stub_agent (Some (0, service_error)) [])))) =
      CreateAgentCall ''gpt-4'' ''Azure Tools Agent''
        ''You are a helpful AI assistant with access to Azure tools.'' [] []"
    by (simp add: create_agent_def or_default_def Let_def stub_agent_def example_config_def
        split: sum.splits)
  show ?thesis
    using c controller_propagates
      [where self = "stub_agent (Some (0, service_error)) []" and nm = None
         and mo = "''gpt-4''" and na = "''Azure Tools Agent''"
         and ins = "''You are a helpful AI assistant with access to Azure tools.''"
         and ts = "[]" and rs = "[]"
         and e = service_error and aid = "''agent1''" and thread_id = None and msg = "''hi''"]
    controller_propagates
      [where self = "stub_agent (Some (1, service_error)) []"
         and e = service_error and aid = "''agent1''" and thread_id = None and msg = "''hi''"
         and tid = "''t1''"
         and ?s1.0 = "(stub_agent (Some (1, service_error)) []) \<lparr> calls := [CreateThreadCall] \<rparr>"]
    controller_propagates
      [where self = "stub_agent (Some (2, service_error)) []"
         and e = service_error and aid = "''agent1''" and thread_id = None and msg = "''hi''"
         and tid = "''t1''" and u = "()"
         and ?s1.0 = "(stub_agent (Some (2, service_error)) []) \<lparr> calls := [CreateThreadCall] \<rparr>"
         and ?s2.0 = "(stub_agent (Some (2, service_error)) [])
            \<lparr> calls := [CreateThreadCall, CreateMessageCall ''t1'' ''user'' ''hi''] \<rparr>"]
    controller_propagates
      [where self = "stub_agent (Some (3, service_error)) []"
         and e = service_error and aid = "''agent1''" and thread_id = None and msg = "''hi''"
         and tid = "''t1''" and u = "()" and run = "\<lparr> status = ''completed'' \<rparr>"
         and ?s1.0 = "(stub_agent (Some (3, service_error)) []) \<lparr> calls := [CreateThreadCall] \<rparr>"
         and ?s2.0 = "(stub_agent (Some (3, service_error)) [])
            \<lparr> calls := [CreateThreadCall, CreateMessageCall ''t1'' ''user'' ''hi''] \<rparr>"
         and ?s3.0 = "(stub_agent (Some (3, service_error)) [])
            \<lparr> calls := [CreateThreadCall, CreateMessageCall ''t1'' ''user'' ''hi'',
                 CreateAndProcessRunCall ''t1'' ''agent1''] \<rparr>"]
    controller_propagates
      [where self = "stub_agent None []" and n = "''custom''"
         and f = "raising_callable service_error" and d = "''fails''" and ps = PNone
         and kw = "[]"]
    by (simp add: stub_fault_simps answer_def run_agent_thread_def remote_defs
        raising_callable_def)
qed

end
